theory Spec2Isabelle
  imports Main "HOL-Library.Word" "HOL-Library.Sublist"
begin

section \<open>Python values\<close>

text \<open>
  The worker handles values decoded from JSON: the job payload (\<open>json.loads(body)\<close>), the
  custom-fields document (\<open>response.json()\<close>) and the CRM query result.  A decoded JSON
  value is \<open>None\<close>, a \<open>bool\<close>, an \<open>int\<close>, a \<open>float\<close>, a \<open>str\<close>, a \<open>list\<close> or a \<open>dict\<close>
  with \<open>str\<close> keys.  A float is kept as its IEEE 754 bit pattern: the worker only tests a
  float for truth and compares it with \<open>1\<close>.  A dict is an association list read with
  \<open>map_of\<close>, so that the first binding of a key is the dict's.
\<close>

datatype json =
    JNull
  | JBool bool
  | JInt int
  | JFloat "64 word"
  | JStr string
  | JList "json list"
  | JDict "(string \<times> json) list"

text \<open>
  The exceptions of the model are instances of \<open>Exception\<close>, the class the handler of
  \<open>process_webhook_job\<close> catches.  \<open>KeyboardInterrupt\<close> and \<open>SystemExit\<close>, which a signal
  raises asynchronously and which are no \<open>Exception\<close>, are outside the model.
\<close>

datatype pyexn =
    AttributeError
  | KeyError
  | TypeError
  | IndexError
  | ValueError
  | OSError
  | JSONDecodeError
  | HTTPError
  | RequestException
  | ApiException
  | SalesforceError
  | AMQPConnectionError
  | AMQPChannelError

text \<open>\<open>bool(v)\<close>, the test of \<open>if v\<close> and \<open>if not v\<close>.\<close>

fun py_truthy :: "json \<Rightarrow> bool" where
  "py_truthy JNull = False"
| "py_truthy (JBool b) = b"
| "py_truthy (JInt i) = (i \<noteq> 0)"
| "py_truthy (JFloat w) = (take_bit 63 w \<noteq> 0)"
| "py_truthy (JStr s) = (s \<noteq> [])"
| "py_truthy (JList xs) = (xs \<noteq> [])"
| "py_truthy (JDict kvs) = (kvs \<noteq> [])"

text \<open>\<open>v == s\<close> for a string literal \<open>s\<close>: only an equal \<open>str\<close> compares equal.\<close>

fun py_eq_str :: "json \<Rightarrow> string \<Rightarrow> bool" where
  "py_eq_str (JStr t) s = (t = s)"
| "py_eq_str _ s = False"

text \<open>
  \<open>v != 1\<close>: the int \<open>1\<close>, \<open>True\<close> and the float \<open>1.0\<close> (bit pattern
  \<open>0x3FF0000000000000\<close>) are equal to \<open>1\<close>, every other value differs from it.
\<close>

fun py_ne_one :: "json \<Rightarrow> bool" where
  "py_ne_one (JInt i) = (i \<noteq> 1)"
| "py_ne_one (JBool b) = (\<not> b)"
| "py_ne_one (JFloat w) = (w \<noteq> 0x3FF0000000000000)"
| "py_ne_one _ = True"

text \<open>\<open>v.get(key)\<close>: a method of \<open>dict\<close> only; a missing key gives \<open>None\<close>.\<close>

fun py_get :: "json \<Rightarrow> string \<Rightarrow> pyexn + json" where
  "py_get (JDict kvs) key = Inr (case map_of kvs key of None \<Rightarrow> JNull | Some v \<Rightarrow> v)"
| "py_get _ key = Inl AttributeError"

text \<open>
  \<open>v[key]\<close> with a \<open>str\<close> key: \<open>KeyError\<close> on a dict without the key, \<open>TypeError\<close> on
  every other value (a list or a str takes integer indices, the rest is not subscriptable).
\<close>

fun py_getitem :: "json \<Rightarrow> string \<Rightarrow> pyexn + json" where
  "py_getitem (JDict kvs) key = (case map_of kvs key of None \<Rightarrow> Inl KeyError | Some v \<Rightarrow> Inr v)"
| "py_getitem _ key = Inl TypeError"

text \<open>
  \<open>v[0]\<close>: the first element of a list or the first character of a str, \<open>IndexError\<close> when
  it is empty; \<open>KeyError\<close> on a dict, whose keys are strs; \<open>TypeError\<close> otherwise.
\<close>

fun py_getitem0 :: "json \<Rightarrow> pyexn + json" where
  "py_getitem0 (JList []) = Inl IndexError"
| "py_getitem0 (JList (x # xs)) = Inr x"
| "py_getitem0 (JStr []) = Inl IndexError"
| "py_getitem0 (JStr (c # cs)) = Inr (JStr [c])"
| "py_getitem0 (JDict kvs) = Inl KeyError"
| "py_getitem0 _ = Inl TypeError"

text \<open>
  \<open>for x in v\<close>: the elements of a list, the keys of a dict, the characters of a str;
  \<open>TypeError\<close> on a value that is not iterable.  The worker goes on to call \<open>get\<close> on
  each element, which a key or a character, being a str, does not have.
\<close>

fun py_iter :: "json \<Rightarrow> pyexn + json list" where
  "py_iter (JList xs) = Inr xs"
| "py_iter (JDict kvs) = Inr (map JStr (remdups (map fst kvs)))"
| "py_iter (JStr s) = Inr (map (\<lambda>c. JStr [c]) s)"
| "py_iter _ = Inl TypeError"

section \<open>Base64\<close>

text \<open>
  \<open>base64.b64encode\<close> of the standard library (RFC 4648, with padding): three bytes give
  four characters of the alphabet.  Its result is ASCII, so \<open>.decode('utf-8')\<close> gives the
  same characters as a str.
\<close>

definition b64_alphabet :: string where
  "b64_alphabet = ''ABCDEFGHIJKLMNOPQRSTUVWXYZabcdefghijklmnopqrstuvwxyz0123456789+/''"

definition b64_char :: "nat \<Rightarrow> char" where
  "b64_char n = b64_alphabet ! (n mod 64)"

fun b64encode :: "8 word list \<Rightarrow> string" where
  "b64encode [] = []"
| "b64encode [a] =
     [b64_char (unat a div 4), b64_char (unat a mod 4 * 16), CHR ''='', CHR ''='']"
| "b64encode [a, b] =
     [b64_char (unat a div 4), b64_char (unat a mod 4 * 16 + unat b div 16),
      b64_char (unat b mod 16 * 4), CHR ''='']"
| "b64encode (a # b # c # rest) =
     [b64_char (unat a div 4), b64_char (unat a mod 4 * 16 + unat b div 16),
      b64_char (unat b mod 16 * 4 + unat c div 64), b64_char (unat c mod 64)]
     @ b64encode rest"

text \<open>
  The decoding of RFC 4648, to say what an encoded text stands for: four characters give
  three bytes, and a final group with one or two \<open>=\<close> gives two bytes or one.
\<close>

definition b64_index :: "char \<Rightarrow> nat option" where
  \<comment> \<open>the position of a character in the alphabet\<close>
  "b64_index c = map_of (zip b64_alphabet [0..<64]) c"

fun b64decode :: "string \<Rightarrow> 8 word list option" where
  "b64decode [] = Some []"
| "b64decode (c1 # c2 # c3 # c4 # rest) =
     (case (b64_index c1, b64_index c2) of
        (Some s1, Some s2) \<Rightarrow>
          (if rest = [] \<and> c3 = CHR ''='' \<and> c4 = CHR ''='' then
             Some [of_nat (s1 * 4 + s2 div 16)]
           else
             (case b64_index c3 of
                Some s3 \<Rightarrow>
                  (if rest = [] \<and> c4 = CHR ''='' then
                     Some [of_nat (s1 * 4 + s2 div 16), of_nat (s2 mod 16 * 16 + s3 div 4)]
                   else
                     (case (b64_index c4, b64decode rest) of
                        (Some s4, Some bytes) \<Rightarrow>
                          Some (of_nat (s1 * 4 + s2 div 16) #
                                of_nat (s2 mod 16 * 16 + s3 div 4) #
                                of_nat (s3 mod 4 * 64 + s4) # bytes)
                      | _ \<Rightarrow> None))
              | None \<Rightarrow> None))
      | _ \<Rightarrow> None)"
| "b64decode _ = None"

section \<open>Actions: a result or an exception, and the calls made\<close>

text \<open>
  A function of the worker either returns a value or raises an exception, and on its way it
  calls the e-signature API, the CRM and the broker.  An action is the pair of its outcome
  (\<open>Inl\<close> the exception raised, \<open>Inr\<close> the value returned) and the list of the external
  calls it made, in the order it made them.  Log lines are not recorded.
\<close>

type_synonym ('a, 'ev) act = "(pyexn + 'a) \<times> 'ev list"

definition ret :: "'a \<Rightarrow> ('a, 'ev) act" where
  "ret x = (Inr x, [])"

definition lift :: "pyexn + 'a \<Rightarrow> ('a, 'ev) act" where
  \<comment> \<open>a computation that makes no external call\<close>
  "lift r = (r, [])"

definition call :: "'ev \<Rightarrow> pyexn + 'a \<Rightarrow> ('a, 'ev) act" where
  \<comment> \<open>an external call \<open>ev\<close> that answers \<open>r\<close>\<close>
  "call ev r = (r, [ev])"

definition act_bind :: "('a, 'ev) act \<Rightarrow> ('a \<Rightarrow> ('b, 'ev) act) \<Rightarrow> ('b, 'ev) act" where
  \<comment> \<open>sequencing: an exception of the first statement skips the rest\<close>
  "act_bind m f =
     (case m of
        (Inl e, t) \<Rightarrow> (Inl e, t)
      | (Inr x, t) \<Rightarrow> (case f x of (r, t') \<Rightarrow> (r, t @ t')))"

definition try_except :: "('a, 'ev) act \<Rightarrow> (pyexn \<Rightarrow> ('a, 'ev) act) \<Rightarrow> ('a, 'ev) act" where
  \<comment> \<open>\<open>try: m  except Exception as e: h e\<close>\<close>
  "try_except m h =
     (case m of
        (Inl e, t) \<Rightarrow> (case h e of (r, t') \<Rightarrow> (r, t @ t'))
      | (Inr x, t) \<Rightarrow> (Inr x, t))"

section \<open>Configuration and the outside world\<close>

text \<open>
  \<open>config.ini\<close> as \<open>configparser\<close> presents it after \<open>config.read\<close>: sections by name,
  each a list of options with their values.  Reading a missing section or option raises
  \<open>KeyError\<close>.  A file that \<open>configparser\<close> cannot parse and a value whose interpolation
  fails are not described: they raise as well while the module is loaded, in \<open>config.read\<close>
  or at the read of the option, before line 32.
\<close>

type_synonym configparser = "(string \<times> (string \<times> string) list) list"

definition getitem :: "('k \<times> 'v) list \<Rightarrow> 'k \<Rightarrow> pyexn + 'v" where
  "getitem d k = (case map_of d k of None \<Rightarrow> Inl KeyError | Some v \<Rightarrow> Inr v)"

definition sum_bind :: "pyexn + 'a \<Rightarrow> ('a \<Rightarrow> pyexn + 'b) \<Rightarrow> pyexn + 'b" where
  "sum_bind r f = (case r of Inl e \<Rightarrow> Inl e | Inr x \<Rightarrow> f x)"

definition config_get :: "configparser \<Rightarrow> string \<Rightarrow> string \<Rightarrow> pyexn + string" where
  \<comment> \<open>\<open>config[section][option]\<close>\<close>
  "config_get cfg sect opt = sum_bind (getitem cfg sect) (\<lambda>sec. getitem sec opt)"

text \<open>The module-level names that the functions read.\<close>

record globals =
  config :: configparser
  DS_INTEGRATOR_KEY :: string
  DS_USER_ID :: string
  DS_ACCOUNT_ID :: string
  DS_PRIVATE_KEY_PATH :: string
  SF_USERNAME :: string
  SF_PASSWORD :: string
  SF_SECURITY_TOKEN :: string
  RABBITMQ_URL :: string

definition QUEUE_NAME :: string where
  "QUEUE_NAME = ''docusign_jobs''"

text \<open>
  Lines 15 to 37, run when the module is loaded: the options are read in the order of the
  source, then the broker URL is taken from the environment, and a missing or empty URL
  raises \<open>ValueError\<close>.
\<close>

definition module_init :: "configparser \<Rightarrow> (string \<Rightarrow> string option) \<Rightarrow> pyexn + globals" where
  "module_init cfg environ =
     sum_bind (getitem cfg ''DOCUSIGN'') (\<lambda>DS_CONFIG.
     sum_bind (getitem DS_CONFIG ''integrator_key'') (\<lambda>integrator_key.
     sum_bind (getitem DS_CONFIG ''user_id'') (\<lambda>user_id.
     sum_bind (getitem DS_CONFIG ''account_id'') (\<lambda>account_id.
     sum_bind (getitem DS_CONFIG ''private_key_file'') (\<lambda>private_key_file.
     sum_bind (getitem cfg ''SALESFORCE'') (\<lambda>SF_CONFIG.
     sum_bind (getitem SF_CONFIG ''username'') (\<lambda>username.
     sum_bind (getitem SF_CONFIG ''password'') (\<lambda>password.
     sum_bind (getitem SF_CONFIG ''security_token'') (\<lambda>security_token.
     (case environ ''RABBITMQ_URL'' of
        None \<Rightarrow> Inl ValueError
      | Some url \<Rightarrow>
          if url = [] then Inl ValueError
          else Inr \<lparr>config = cfg,
                    DS_INTEGRATOR_KEY = integrator_key,
                    DS_USER_ID = user_id,
                    DS_ACCOUNT_ID = account_id,
                    DS_PRIVATE_KEY_PATH = private_key_file,
                    SF_USERNAME = username,
                    SF_PASSWORD = password,
                    SF_SECURITY_TOKEN = security_token,
                    RABBITMQ_URL = url\<rparr>))))))))))"

text \<open>The arguments of \<open>request_jwt_user_token\<close>.\<close>

record jwt_request =
  client_id :: string
  user_id :: string
  oauth_host_name :: string
  private_key_bytes :: string
  expires_in :: int
  scopes :: "string list"

text \<open>
  A \<open>requests\<close> response: its status, what \<open>.json()\<close> gives (the decoded body, or the
  exception of a body that is not JSON) and its \<open>.content\<close> bytes.
\<close>

record response =
  status_code :: int
  json_result :: "pyexn + json"
  content :: "8 word list"

definition raise_for_status :: "response \<Rightarrow> pyexn + unit" where
  \<comment> \<open>\<open>HTTPError\<close> on a 4xx or 5xx status\<close>
  "raise_for_status r =
     (if 400 \<le> status_code r \<and> status_code r < 600 then Inl HTTPError else Inr ())"

text \<open>The calls to the e-signature API and to the CRM, with their arguments.\<close>

datatype api_call =
    OpenFile string
  | RequestJwtUserToken jwt_request
  | SalesforceLogin string string string
  | RequestsGet string "(string \<times> string) list"
  | SfQuery string
  | AttachmentCreate json

text \<open>The calls to the broker.\<close>

datatype broker_call =
    BlockingConnection string
  | Channel
  | QueueDeclare string bool
  | BasicQos nat
  | BasicConsume string
  | BasicAck nat
  | BasicNack nat bool

datatype event = Api api_call | Broker broker_call

text \<open>
  The outside world answers each call with a value or an exception.  Within one job every
  call is made at most once with the same arguments (the two GET requests differ in their
  URL), so a function of the arguments describes any behaviour of the services during a
  job.  \<open>URLParameters\<close> is the parsing of the broker URL by \<open>pika.URLParameters\<close>, which
  raises on a URL that is not well formed and makes no call.  \<open>py_str\<close> is \<open>str()\<close> on a
  value that is not a str, as an f-string applies it.
\<close>

record env =
  open_read :: "string \<Rightarrow> pyexn + string"
  request_jwt_user_token :: "jwt_request \<Rightarrow> pyexn + string"
  Salesforce :: "string \<Rightarrow> string \<Rightarrow> string \<Rightarrow> pyexn + unit"
  requests_get :: "string \<Rightarrow> (string \<times> string) list \<Rightarrow> pyexn + response"
  sf_query :: "string \<Rightarrow> pyexn + json"
  Attachment_create :: "json \<Rightarrow> pyexn + json"
  json_loads :: "string \<Rightarrow> pyexn + json"
  URLParameters :: "string \<Rightarrow> pyexn + unit"
  broker :: "broker_call \<Rightarrow> pyexn + unit"
  py_str :: "json \<Rightarrow> string"

definition py_format :: "env \<Rightarrow> json \<Rightarrow> string" where
  \<comment> \<open>\<open>{v}\<close> in an f-string: a str as it is, any other value through \<open>str()\<close>\<close>
  "py_format w v = (case v of JStr s \<Rightarrow> s | _ \<Rightarrow> py_str w v)"

section \<open>The helper functions\<close>

text \<open>
  The \<open>ApiClient\<close> of the e-signature SDK, as far as the worker reads it: its host and its
  default headers.  The headers that the constructor presets are left out; the worker reads
  \<open>Authorization\<close> only, after having set it.
\<close>

record api_client =
  host :: string
  default_headers :: "(string \<times> string) list"

definition ApiClient :: api_client where
  "ApiClient = \<lparr>host = ''https://www.docusign.net/restapi'', default_headers = []\<rparr>"

definition set_default_header :: "string \<Rightarrow> string \<Rightarrow> api_client \<Rightarrow> api_client" where
  "set_default_header name v c = c\<lparr>default_headers := (name, v) # default_headers c\<rparr>"

text \<open>
  \<open>get_jwt_token\<close> (lines 40 to 58) reads the private key file and exchanges it for an
  access token.  Its handler logs the exception and raises it again, so the exception of a
  failed step is the exception of the function.
\<close>

definition jwt_user_token_request :: "globals \<Rightarrow> string \<Rightarrow> string \<Rightarrow> jwt_request" where
  \<comment> \<open>the arguments of lines 48 to 53\<close>
  "jwt_user_token_request g authorization_server private_key =
     \<lparr>client_id = DS_INTEGRATOR_KEY g,
      user_id = DS_USER_ID g,
      oauth_host_name = authorization_server,
      private_key_bytes = private_key,
      expires_in = 3600,
      scopes = [''signature'', ''impersonation'']\<rparr>"

definition get_jwt_token :: "globals \<Rightarrow> env \<Rightarrow> (string, api_call) act" where
  "get_jwt_token g w =
     act_bind (call (OpenFile (DS_PRIVATE_KEY_PATH g)) (open_read w (DS_PRIVATE_KEY_PATH g)))
       (\<lambda>private_key.
     act_bind (lift (config_get (config g) ''DOCUSIGN'' ''authorization_server''))
       (\<lambda>authorization_server.
     let request = jwt_user_token_request g authorization_server private_key in
     act_bind (call (RequestJwtUserToken request) (request_jwt_user_token w request))
       (\<lambda>access_token. ret access_token)))"

text \<open>\<open>get_docusign_api_client\<close> (lines 60 to 69); its handler raises again as well.\<close>

definition get_docusign_api_client :: "globals \<Rightarrow> env \<Rightarrow> (api_client, api_call) act" where
  "get_docusign_api_client g w =
     (let api_client = ApiClient in
      act_bind (lift (config_get (config g) ''DOCUSIGN'' ''api_server''))
        (\<lambda>api_server.
      let api_client = api_client\<lparr>host := ''https://'' @ api_server @ ''/restapi''\<rparr> in
      act_bind (get_jwt_token g w)
        (\<lambda>token.
      ret (set_default_header ''Authorization'' (''Bearer '' @ token) api_client))))"

text \<open>
  \<open>get_salesforce_client\<close> (lines 71 to 77) logs in to the CRM.  The client it returns
  carries no data of its own in the model: its \<open>query\<close> and \<open>Attachment.create\<close> are the
  \<open>sf_query\<close> and \<open>Attachment_create\<close> of the outside world.
\<close>

definition get_salesforce_client :: "globals \<Rightarrow> env \<Rightarrow> (unit, api_call) act" where
  "get_salesforce_client g w =
     call (SalesforceLogin (SF_USERNAME g) (SF_PASSWORD g) (SF_SECURITY_TOKEN g))
          (Salesforce w (SF_USERNAME g) (SF_PASSWORD g) (SF_SECURITY_TOKEN g))"

section \<open>The orchestrator\<close>

text \<open>
  The loop of lines 102 to 105 over the fields: the first field whose \<open>name\<close> is
  \<open>contractNumber\<close> gives its \<open>value\<close> and ends the loop (\<open>break\<close>); without such a field
  \<open>contract_number\<close> keeps its initial \<open>None\<close>.  A field that is no dict has no \<open>get\<close>.
\<close>

fun scan_fields :: "json list \<Rightarrow> pyexn + json" where
  "scan_fields [] = Inr JNull"
| "scan_fields (field # rest) =
     sum_bind (py_get field ''name'') (\<lambda>name.
     if py_eq_str name ''contractNumber'' then py_get field ''value''
     else scan_fields rest)"

text \<open>Lines 100 to 105: the contract number of the custom-fields document.\<close>

definition find_contract_number :: "json \<Rightarrow> pyexn + json" where
  "find_contract_number custom_fields_data =
     sum_bind (py_get custom_fields_data ''textCustomFields'') (\<lambda>text_custom_fields.
     if py_truthy text_custom_fields then
       sum_bind (py_getitem custom_fields_data ''textCustomFields'') (\<lambda>text_custom_fields.
       sum_bind (py_iter text_custom_fields) scan_fields)
     else Inr JNull)"

definition custom_fields_url :: "string \<Rightarrow> string \<Rightarrow> string \<Rightarrow> string" where
  \<comment> \<open>the f-string of line 94\<close>
  "custom_fields_url h account_id envelope_id =
     h @ ''/v2.1/accounts/'' @ account_id @ ''/envelopes/'' @ envelope_id @ ''/custom_fields''"

definition doc_download_url :: "string \<Rightarrow> string \<Rightarrow> string \<Rightarrow> string" where
  \<comment> \<open>the f-string of line 125\<close>
  "doc_download_url h account_id envelope_id =
     h @ ''/v2.1/accounts/'' @ account_id @ ''/envelopes/'' @ envelope_id @ ''/documents/combined''"

definition soql_query :: "string \<Rightarrow> string" where
  \<comment> \<open>the f-string of line 114; \<open>CHR 0x27\<close> is the single quote\<close>
  "soql_query contract_number =
     ''SELECT Id FROM Contract WHERE ContractNumber = '' @ [CHR 0x27] @ contract_number @ [CHR 0x27]"

definition attachment_payload :: "json \<Rightarrow> string \<Rightarrow> string \<Rightarrow> json" where
  \<comment> \<open>the dict of lines 132 to 137\<close>
  "attachment_payload salesforce_contract_id contract_number encoded_content =
     JDict [(''ParentId'', salesforce_contract_id),
            (''Name'', JStr (''Signed Contract - '' @ contract_number @ ''.pdf'')),
            (''Body'', JStr encoded_content),
            (''ContentType'', JStr ''application/pdf'')]"

text \<open>
  \<open>process_webhook_job\<close> (lines 80 to 144).  The test of the event (line 82) stands before
  the \<open>try\<close>; the statements of lines 87 to 140 stand inside it, and its handler (lines 142
  to 144) turns every exception into \<open>False\<close>.
\<close>

definition process_webhook_job_body :: "globals \<Rightarrow> env \<Rightarrow> json \<Rightarrow> (bool, api_call) act" where
  "process_webhook_job_body g w webhook_data =
     act_bind (lift (sum_bind (py_getitem webhook_data ''data'') (\<lambda>data.
                     py_getitem data ''envelopeId'')))
       (\<lambda>envelope_id.
     act_bind (get_docusign_api_client g w)
       (\<lambda>docusign_api_client.
     act_bind (get_salesforce_client g w)
       (\<lambda>sf_client.
     let url = custom_fields_url (host docusign_api_client) (DS_ACCOUNT_ID g)
                 (py_format w envelope_id) in
     act_bind (lift (getitem (default_headers docusign_api_client) ''Authorization''))
       (\<lambda>authorization.
     let headers = [(''Authorization'', authorization)] in
     act_bind (call (RequestsGet url headers) (requests_get w url headers))
       (\<lambda>response.
     act_bind (lift (raise_for_status response))
       (\<lambda>_.
     act_bind (lift (json_result response))
       (\<lambda>custom_fields_data.
     act_bind (lift (find_contract_number custom_fields_data))
       (\<lambda>contract_number.
     if \<not> py_truthy contract_number then ret False
     else
     let query = soql_query (py_format w contract_number) in
     act_bind (call (SfQuery query) (sf_query w query))
       (\<lambda>query_result.
     act_bind (lift (py_getitem query_result ''totalSize''))
       (\<lambda>total_size.
     if py_ne_one total_size then ret False
     else
     act_bind (lift (sum_bind (py_getitem query_result ''records'') (\<lambda>records.
                     sum_bind (py_getitem0 records) (\<lambda>record.
                     py_getitem record ''Id''))))
       (\<lambda>salesforce_contract_id.
     let url = doc_download_url (host docusign_api_client) (DS_ACCOUNT_ID g)
                 (py_format w envelope_id) in
     act_bind (call (RequestsGet url headers) (requests_get w url headers))
       (\<lambda>response.
     act_bind (lift (raise_for_status response))
       (\<lambda>_.
     let doc_content_bytes = content response;
         encoded_content = b64encode doc_content_bytes;
         payload = attachment_payload salesforce_contract_id (py_format w contract_number)
                     encoded_content in
     act_bind (call (AttachmentCreate payload) (Attachment_create w payload))
       (\<lambda>_.
     ret True))))))))))))))"

definition process_webhook_job :: "globals \<Rightarrow> env \<Rightarrow> json \<Rightarrow> (bool, api_call) act" where
  "process_webhook_job g w webhook_data =
     act_bind (lift (py_get webhook_data ''event''))
       (\<lambda>event.
     if \<not> py_eq_str event ''envelope-completed'' then ret True
     else try_except (process_webhook_job_body g w webhook_data) (\<lambda>e. ret False))"

section \<open>The consumer\<close>

definition emit :: "('e \<Rightarrow> 'ev) \<Rightarrow> ('a, 'e) act \<Rightarrow> ('a, 'ev) act" where
  \<comment> \<open>an action among the calls of a larger program\<close>
  "emit f m = (fst m, map f (snd m))"

text \<open>
  \<open>callback\<close> (lines 155 to 166), for a message with delivery tag \<open>tag\<close>: the body is
  decoded, the job is processed and the message is acknowledged or rejected.  No statement
  of it stands in a \<open>try\<close>.
\<close>

definition callback :: "globals \<Rightarrow> env \<Rightarrow> nat \<Rightarrow> string \<Rightarrow> (unit, event) act" where
  "callback g w tag body =
     act_bind (lift (json_loads w body))
       (\<lambda>webhook_data.
     act_bind (emit Api (process_webhook_job g w webhook_data))
       (\<lambda>success.
     if success then call (Broker (BasicAck tag)) (broker w (BasicAck tag))
     else call (Broker (BasicNack tag False)) (broker w (BasicNack tag False))))"

text \<open>
  \<open>start_consuming\<close> hands each delivered message to the callback, one at a time, and an
  exception of the callback leaves it.  The model runs it over the messages the broker
  delivers until the process is stopped.
\<close>

fun start_consuming :: "globals \<Rightarrow> env \<Rightarrow> (nat \<times> string) list \<Rightarrow> (unit, event) act" where
  "start_consuming g w [] = ret ()"
| "start_consuming g w ((tag, body) # deliveries) =
     act_bind (callback g w tag body) (\<lambda>_. start_consuming g w deliveries)"

text \<open>\<open>main\<close> (lines 147 to 170).\<close>

definition main :: "globals \<Rightarrow> env \<Rightarrow> (nat \<times> string) list \<Rightarrow> (unit, event) act" where
  "main g w deliveries =
     act_bind (lift (URLParameters w (RABBITMQ_URL g)))
       (\<lambda>parameters.
     act_bind (call (Broker (BlockingConnection (RABBITMQ_URL g)))
                    (broker w (BlockingConnection (RABBITMQ_URL g))))
       (\<lambda>_.
     act_bind (call (Broker Channel) (broker w Channel))
       (\<lambda>_.
     act_bind (call (Broker (QueueDeclare QUEUE_NAME True)) (broker w (QueueDeclare QUEUE_NAME True)))
       (\<lambda>_.
     act_bind (call (Broker (BasicQos 1)) (broker w (BasicQos 1)))
       (\<lambda>_.
     act_bind (call (Broker (BasicConsume QUEUE_NAME)) (broker w (BasicConsume QUEUE_NAME)))
       (\<lambda>_.
     start_consuming g w deliveries))))))"

text \<open>
  The script as a whole: the module is loaded (lines 13 to 37), and only then lines 172 to
  179 call \<open>main\<close>.  Their handler for \<open>AMQPConnectionError\<close> logs, sleeps and lets the
  process end; any other exception ends the process with that exception.
\<close>

definition worker ::
    "configparser \<Rightarrow> (string \<Rightarrow> string option) \<Rightarrow> env \<Rightarrow> (nat \<times> string) list \<Rightarrow> (unit, event) act" where
  "worker cfg environ w deliveries =
     act_bind (lift (module_init cfg environ))
       (\<lambda>g.
     try_except (main g w deliveries)
       (\<lambda>e. if e = AMQPConnectionError then ret () else lift (Inl e)))"

section \<open>Vocabulary of the properties\<close>

text \<open>
  Both clients are acquired: the configuration names the two servers, the private key file
  is read, the token exchange gives a token and the CRM accepts the login.
\<close>

definition credentials_ok ::
    "globals \<Rightarrow> env \<Rightarrow> string \<Rightarrow> string \<Rightarrow> string \<Rightarrow> string \<Rightarrow> bool" where
  "credentials_ok g w api_server authorization_server private_key token \<longleftrightarrow>
     config_get (config g) ''DOCUSIGN'' ''api_server'' = Inr api_server \<and>
     open_read w (DS_PRIVATE_KEY_PATH g) = Inr private_key \<and>
     config_get (config g) ''DOCUSIGN'' ''authorization_server'' = Inr authorization_server \<and>
     request_jwt_user_token w (jwt_user_token_request g authorization_server private_key)
       = Inr token \<and>
     Salesforce w (SF_USERNAME g) (SF_PASSWORD g) (SF_SECURITY_TOKEN g) = Inr ()"

text \<open>The kinds of calls that the properties speak of.\<close>

fun is_credential_call :: "api_call \<Rightarrow> bool" where
  "is_credential_call (OpenFile path) = True"
| "is_credential_call (RequestJwtUserToken request) = True"
| "is_credential_call (SalesforceLogin username password security_token) = True"
| "is_credential_call _ = False"

fun is_crm_query :: "api_call \<Rightarrow> bool" where
  "is_crm_query (SfQuery query) = True"
| "is_crm_query _ = False"

fun is_document_download :: "api_call \<Rightarrow> bool" where
  "is_document_download (RequestsGet url headers) = suffix ''/documents/combined'' url"
| "is_document_download _ = False"

fun is_attachment_create :: "api_call \<Rightarrow> bool" where
  "is_attachment_create (AttachmentCreate payload) = True"
| "is_attachment_create _ = False"

fun is_acknowledgment :: "event \<Rightarrow> bool" where
  "is_acknowledgment (Broker (BasicAck tag)) = True"
| "is_acknowledgment (Broker (BasicNack tag requeue)) = True"
| "is_acknowledgment _ = False"

definition past_fields :: "api_call \<Rightarrow> bool" where
  \<comment> \<open>the calls that follow the custom-fields fetch\<close>
  "past_fields ev \<longleftrightarrow> is_crm_query ev \<or> is_document_download ev \<or> is_attachment_create ev"

definition past_query :: "api_call \<Rightarrow> bool" where
  \<comment> \<open>the calls that follow the CRM query\<close>
  "past_query ev \<longleftrightarrow> is_document_download ev \<or> is_attachment_create ev"

text \<open>
  The custom-fields document has a field named exactly \<open>contractNumber\<close>: its
  \<open>textCustomFields\<close> is a list, and one of its elements is a dict whose \<open>name\<close> is that str.
\<close>

fun is_contract_number_field :: "json \<Rightarrow> bool" where
  "is_contract_number_field (JDict fd) = (map_of fd ''name'' = Some (JStr ''contractNumber''))"
| "is_contract_number_field _ = False"

definition has_contract_number_field :: "json \<Rightarrow> bool" where
  "has_contract_number_field custom_fields_data =
     (case custom_fields_data of
        JDict cf \<Rightarrow>
          (case map_of cf ''textCustomFields'' of
             Some (JList fs) \<Rightarrow> list_ex is_contract_number_field fs
           | _ \<Rightarrow> False)
      | _ \<Rightarrow> False)"

text \<open>
  The \<open>totalSize\<close> of a query result equals \<open>1\<close> in the sense of Python's \<open>==\<close>, which
  the int \<open>1\<close>, \<open>True\<close> and the float \<open>1.0\<close> satisfy.
\<close>

definition total_size_is_one :: "json \<Rightarrow> bool" where
  "total_size_is_one query_result =
     (case query_result of
        JDict q \<Rightarrow>
          (case map_of q ''totalSize'' of
             Some n \<Rightarrow> n = JInt 1 \<or> n = JBool True \<or> n = JFloat 0x3FF0000000000000
           | None \<Rightarrow> False)
      | _ \<Rightarrow> False)"

text \<open>
  An action fails without a call of the kind \<open>bad\<close>: it returns \<open>False\<close> or raises, and
  none of its calls is \<open>bad\<close>.
\<close>

definition fails_without :: "(api_call \<Rightarrow> bool) \<Rightarrow> (bool, api_call) act \<Rightarrow> bool" where
  "fails_without bad m \<longleftrightarrow>
     (fst m = Inr False \<or> (\<exists>e. fst m = Inl e)) \<and> \<not> list_ex bad (snd m)"

section \<open>A scenario\<close>

text \<open>
  The end-to-end scenario: the job of envelope \<open>E1\<close>, whose custom field
  \<open>contractNumber\<close> is \<open>C-100\<close>; the CRM has one contract of that number, \<open>0061x\<close>; the
  signed document is the seven bytes \<open>%PDF...\<close>.
\<close>

definition cfg0 :: configparser where
  "cfg0 = [(''DOCUSIGN'', [(''integrator_key'', ''ik-1''), (''user_id'', ''user-1''),
                           (''account_id'', ''acct-1''), (''private_key_file'', ''private.key''),
                           (''authorization_server'', ''account-d.docusign.com''),
                           (''api_server'', ''demo.docusign.net'')]),
           (''SALESFORCE'', [(''username'', ''crm-user''), (''password'', ''crm-pass''),
                             (''security_token'', ''crm-token'')])]"

definition environ0 :: "string \<Rightarrow> string option" where
  "environ0 name = (if name = ''RABBITMQ_URL'' then Some ''amqp://broker'' else None)"

definition g0 :: globals where
  "g0 = \<lparr>config = cfg0, DS_INTEGRATOR_KEY = ''ik-1'', DS_USER_ID = ''user-1'',
          DS_ACCOUNT_ID = ''acct-1'', DS_PRIVATE_KEY_PATH = ''private.key'',
          SF_USERNAME = ''crm-user'', SF_PASSWORD = ''crm-pass'',
          SF_SECURITY_TOKEN = ''crm-token'', RABBITMQ_URL = ''amqp://broker''\<rparr>"

definition body0 :: string where
  \<open>body0 = ''{"event":"envelope-completed","data":{"envelopeId":"E1"}}''\<close>

definition job0 :: "(string \<times> json) list" where
  "job0 = [(''event'', JStr ''envelope-completed''),
           (''data'', JDict [(''envelopeId'', JStr ''E1'')])]"

definition field0 :: "string \<Rightarrow> (string \<times> json) list" where
  "field0 v = [(''name'', JStr ''contractNumber''), (''value'', JStr v)]"

definition fields0 :: "json list \<Rightarrow> (string \<times> json) list" where
  "fields0 fs = [(''textCustomFields'', JList fs)]"

definition pdf0 :: "8 word list" where
  "pdf0 = [0x25, 0x50, 0x44, 0x46, 0x2E, 0x2E, 0x2E]"

definition host0 :: string where
  "host0 = ''https://demo.docusign.net/restapi''"

definition headers0 :: "(string \<times> string) list" where
  "headers0 = [(''Authorization'', ''Bearer TOKEN'')]"

definition fields_response0 :: "json list \<Rightarrow> response" where
  "fields_response0 fs = \<lparr>status_code = 200, json_result = Inr (JDict (fields0 fs)), content = []\<rparr>"

definition document_response0 :: response where
  "document_response0 = \<lparr>status_code = 200, json_result = Inl JSONDecodeError, content = pdf0\<rparr>"

definition requests_get0 ::
    "json list \<Rightarrow> string \<Rightarrow> (string \<times> string) list \<Rightarrow> pyexn + response" where
  "requests_get0 fs url headers =
     (if url = custom_fields_url host0 ''acct-1'' ''E1'' then Inr (fields_response0 fs)
      else if url = doc_download_url host0 ''acct-1'' ''E1'' then Inr document_response0
      else Inl RequestException)"

definition record0 :: "(string \<times> json) list" where
  "record0 = [(''Id'', JStr ''0061x'')]"

definition query_result0 :: "json list \<Rightarrow> (string \<times> json) list" where
  "query_result0 records =
     [(''totalSize'', JInt (int (length records))), (''done'', JBool True),
      (''records'', JList records)]"

definition created0 :: json where
  "created0 = JDict [(''id'', JStr ''00P1x''), (''success'', JBool True), (''errors'', JList [])]"

text \<open>
  The outside world of the scenario, for the custom fields \<open>fs\<close> that the e-signature API
  holds and the records \<open>records\<close> that the CRM finds.  \<open>json_loads\<close> decodes the bodies
  of the examples, and \<open>py_str\<close> renders \<open>None\<close>, \<open>True\<close> and \<open>False\<close>; the examples use
  them on nothing else.  The broker URL of the examples is well formed.
\<close>

definition env0 :: "json list \<Rightarrow> json list \<Rightarrow> env" where
  "env0 fs records =
     \<lparr>open_read = (\<lambda>path. if path = ''private.key'' then Inr ''KEY'' else Inl OSError),
      request_jwt_user_token = (\<lambda>request. Inr ''TOKEN''),
      Salesforce = (\<lambda>username password security_token. Inr ()),
      requests_get = requests_get0 fs,
      sf_query = (\<lambda>query. Inr (JDict (query_result0 records))),
      Attachment_create = (\<lambda>payload. Inr created0),
      json_loads = (\<lambda>body. if body = body0 then Inr (JDict job0)
                           else if body = ''[]'' then Inr (JList [])
                           else Inl JSONDecodeError),
      URLParameters = (\<lambda>url. Inr ()),
      broker = (\<lambda>c. Inr ()),
      py_str = (\<lambda>v. case v of JNull \<Rightarrow> ''None''
                      | JBool b \<Rightarrow> (if b then ''True'' else ''False'')
                      | _ \<Rightarrow> [])\<rparr>"

definition world0 :: env where
  \<comment> \<open>the scenario itself\<close>
  "world0 = env0 [JDict (field0 ''C-100'')] [JDict record0]"

definition quoted0 :: string where
  \<comment> \<open>a contract number with single quotes in it\<close>
  "quoted0 = ''C-100'' @ [CHR 0x27] @ '' OR Name != '' @ [CHR 0x27]"

text \<open>
  Two field lists for the scenario: one whose first field named \<open>contractNumber\<close> is empty
  and is followed by one of the value \<open>C-100\<close>, and one that begins with an element that
  is no field.
\<close>

definition shadowed0 :: "json list" where
  "shadowed0 = [JDict (field0 []), JDict (field0 ''C-100'')]"

definition malformed0 :: "json list" where
  "malformed0 = [JNull, JDict (field0 ''C-100'')]"

section \<open>Lemmas\<close>

lemmas act_defs = act_bind_def ret_def lift_def call_def try_except_def sum_bind_def

lemmas scenario_defs = cfg0_def environ0_def g0_def body0_def job0_def field0_def fields0_def
  pdf0_def host0_def headers0_def fields_response0_def document_response0_def
  requests_get0_def record0_def query_result0_def created0_def env0_def world0_def
  quoted0_def shadowed0_def malformed0_def

lemmas model_defs = credentials_ok_def config_get_def getitem_def jwt_user_token_request_def
  custom_fields_url_def doc_download_url_def soql_query_def attachment_payload_def
  raise_for_status_def py_format_def

subsection \<open>Base64 on the test vectors of RFC 4648\<close>

lemma b64encode_rfc4648:
  "b64encode [] = []"
  "b64encode [0x66] = ''Zg==''"
  "b64encode [0x66, 0x6F] = ''Zm8=''"
  "b64encode [0x66, 0x6F, 0x6F] = ''Zm9v''"
  "b64encode [0x66, 0x6F, 0x6F, 0x62] = ''Zm9vYg==''"
  "b64encode [0x66, 0x6F, 0x6F, 0x62, 0x61] = ''Zm9vYmE=''"
  "b64encode [0x66, 0x6F, 0x6F, 0x62, 0x61, 0x72] = ''Zm9vYmFy''"
  by (simp_all add: b64_char_def b64_alphabet_def)

lemma length_b64encode: "length (b64encode bs) = 4 * ((length bs + 2) div 3)"
proof (induction bs rule: b64encode.induct)
  case (4 a b c rest)
  have "(length rest + 5) div 3 = Suc ((length rest + 2) div 3)"
    by presburger
  with 4 show ?case
    by (simp add: add.commute)
qed simp_all

subsection \<open>Decoding gives the encoded bytes back\<close>

lemma length_b64_alphabet: "length b64_alphabet = 64"
  by (simp add: b64_alphabet_def)

lemma distinct_b64_alphabet: "distinct b64_alphabet"
  by (simp add: b64_alphabet_def)

lemma b64_index_char: "n < 64 \<Longrightarrow> b64_index (b64_char n) = Some n"
  using map_of_zip_nth [of b64_alphabet "[0..<64]" n]
  by (simp add: b64_index_def b64_char_def length_b64_alphabet distinct_b64_alphabet)

lemma b64_char_not_pad: "n < 64 \<Longrightarrow> b64_char n \<noteq> CHR ''=''"
proof
  assume n: "n < 64" and "b64_char n = CHR ''=''"
  then have "CHR ''='' \<in> set b64_alphabet"
    by (metis b64_char_def length_b64_alphabet mod_less nth_mem)
  then show False
    by (simp add: b64_alphabet_def)
qed

lemma unat_byte: "unat (a :: 8 word) < 256"
  using unsigned_less [of a] by simp

lemma sextet_bounds:
  fixes a b c :: nat
  assumes "a < 256" "b < 256" "c < 256"
  shows "a div 4 < 64" "a mod 4 * 16 < 64" "a mod 4 * 16 + b div 16 < 64" "b mod 16 * 4 < 64"
        "b mod 16 * 4 + c div 64 < 64" "c mod 64 < 64"
  using assms by simp_all

lemma first_byte:
  fixes a b :: nat
  assumes "b < 256"
  shows "a div 4 * 4 + (a mod 4 * 16 + b div 16) div 16 = a"
proof -
  have "b div 16 < 16" using assms by simp
  then have "(a mod 4 * 16 + b div 16) div 16 = a mod 4" by simp
  then show ?thesis by simp
qed

lemma second_byte:
  fixes a b c :: nat
  assumes "b < 256" "c < 256"
  shows "(a mod 4 * 16 + b div 16) mod 16 * 16 + (b mod 16 * 4 + c div 64) div 4 = b"
proof -
  have "b div 16 < 16" using assms by simp
  then have x: "(a mod 4 * 16 + b div 16) mod 16 = b div 16" by simp
  have "c div 64 < 4" using assms by simp
  then have y: "(b mod 16 * 4 + c div 64) div 4 = b mod 16" by simp
  show ?thesis unfolding x y by simp
qed

lemma third_byte:
  fixes b c :: nat
  assumes "c < 256"
  shows "(b mod 16 * 4 + c div 64) mod 4 * 64 + c mod 64 = c"
proof -
  have "c div 64 < 4" using assms by simp
  then have "(b mod 16 * 4 + c div 64) mod 4 = c div 64" by simp
  then show ?thesis by simp
qed

lemma b64decode_group1:
  assumes "s1 < 64" "s2 < 64"
  shows "b64decode [b64_char s1, b64_char s2, CHR ''='', CHR ''='']
           = Some [of_nat (s1 * 4 + s2 div 16)]"
  using assms by (simp add: b64_index_char)

lemma b64decode_group2:
  assumes "s1 < 64" "s2 < 64" "s3 < 64"
  shows "b64decode [b64_char s1, b64_char s2, b64_char s3, CHR ''='']
           = Some [of_nat (s1 * 4 + s2 div 16), of_nat (s2 mod 16 * 16 + s3 div 4)]"
  using assms by (simp add: b64_index_char b64_char_not_pad)

lemma b64decode_group3:
  assumes "s1 < 64" "s2 < 64" "s3 < 64" "s4 < 64"
  shows "b64decode (b64_char s1 # b64_char s2 # b64_char s3 # b64_char s4 # rest)
           = (case b64decode rest of
                None \<Rightarrow> None
              | Some bytes \<Rightarrow>
                  Some (of_nat (s1 * 4 + s2 div 16) # of_nat (s2 mod 16 * 16 + s3 div 4) #
                        of_nat (s3 mod 4 * 64 + s4) # bytes))"
  using assms by (simp add: b64_index_char b64_char_not_pad)

lemma b64decode_b64encode: "b64decode (b64encode bs) = Some bs"
proof (induction bs rule: b64encode.induct)
  case 1
  then show ?case by simp
next
  case (2 a)
  define x where "x = unat a"
  have x: "x < 256" and a: "of_nat x = a"
    by (simp_all add: x_def unat_byte)
  have "b64decode [b64_char (x div 4), b64_char (x mod 4 * 16), CHR ''='', CHR ''='']
          = Some [of_nat (x div 4 * 4 + (x mod 4 * 16) div 16)]"
    by (rule b64decode_group1) (use x in simp_all)
  moreover have "x div 4 * 4 + (x mod 4 * 16) div 16 = x"
    using first_byte [of 0 x] by simp
  ultimately show ?case
    unfolding b64encode.simps x_def [symmetric] by (simp only: a)
next
  case (3 a b)
  define x y where "x = unat a" and "y = unat b"
  have x: "x < 256" and a: "of_nat x = a" and y: "y < 256" and b: "of_nat y = b"
    by (simp_all add: x_def y_def unat_byte)
  have "b64decode [b64_char (x div 4), b64_char (x mod 4 * 16 + y div 16),
                   b64_char (y mod 16 * 4), CHR ''='']
          = Some [of_nat (x div 4 * 4 + (x mod 4 * 16 + y div 16) div 16),
                  of_nat ((x mod 4 * 16 + y div 16) mod 16 * 16 + (y mod 16 * 4) div 4)]"
    by (rule b64decode_group2) (use sextet_bounds [OF x y y] in simp_all)
  moreover have "(x mod 4 * 16 + y div 16) mod 16 * 16 + (y mod 16 * 4) div 4 = y"
    using second_byte [OF y, of 0 x] by simp
  ultimately show ?case
    unfolding b64encode.simps x_def [symmetric] y_def [symmetric]
    by (simp only: first_byte [OF y] a b)
next
  case (4 a b c rest)
  define x y z where "x = unat a" and "y = unat b" and "z = unat c"
  have x: "x < 256" and a: "of_nat x = a" and y: "y < 256" and b: "of_nat y = b"
    and z: "z < 256" and c: "of_nat z = c"
    by (simp_all add: x_def y_def z_def unat_byte)
  have "b64decode (b64_char (x div 4) # b64_char (x mod 4 * 16 + y div 16) #
                   b64_char (y mod 16 * 4 + z div 64) # b64_char (z mod 64) # b64encode rest)
          = Some (of_nat (x div 4 * 4 + (x mod 4 * 16 + y div 16) div 16) #
                  of_nat ((x mod 4 * 16 + y div 16) mod 16 * 16 + (y mod 16 * 4 + z div 64) div 4) #
                  of_nat ((y mod 16 * 4 + z div 64) mod 4 * 64 + z mod 64) # rest)"
    using b64decode_group3 [OF sextet_bounds(1,3,5,6) [OF x y z], of "b64encode rest"] 4
    by simp
  then show ?case
    unfolding b64encode.simps x_def [symmetric] y_def [symmetric] z_def [symmetric]
    by (simp only: first_byte [OF y] second_byte [OF y z] third_byte [OF z] a b c append.simps)
qed

subsection \<open>Outcome and calls of an action\<close>

lemma fst_lift: "fst (lift r) = r"
  by (simp add: lift_def)

lemma snd_lift: "snd (lift r) = []"
  by (simp add: lift_def)

lemma fst_call: "fst (call ev r) = r"
  by (simp add: call_def)

lemma snd_call: "snd (call ev r) = [ev]"
  by (simp add: call_def)

lemma fst_ret: "fst (ret x) = Inr x"
  by (simp add: ret_def)

lemma snd_ret: "snd (ret x) = []"
  by (simp add: ret_def)

lemma fst_act_bind:
  "fst (act_bind m f) = (case fst m of Inl e \<Rightarrow> Inl e | Inr x \<Rightarrow> fst (f x))"
  by (cases m; cases "fst m") (auto simp: act_bind_def split: prod.splits)

lemma snd_act_bind:
  "snd (act_bind m f) = snd m @ (case fst m of Inl e \<Rightarrow> [] | Inr x \<Rightarrow> snd (f x))"
  by (cases m; cases "fst m") (auto simp: act_bind_def split: prod.splits)

lemma snd_try_except: "snd (try_except m (\<lambda>e. ret False)) = snd m"
  by (cases m; cases "fst m") (auto simp: try_except_def ret_def)

lemma try_except_returns: "\<exists>b t. try_except m (\<lambda>e. ret False) = (Inr b, t)"
  by (cases m; cases "fst m") (auto simp: try_except_def ret_def)

lemma fails_without_bind:
  assumes "\<not> list_ex bad (snd m)" and "\<And>x. fst m = Inr x \<Longrightarrow> fails_without bad (f x)"
  shows "fails_without bad (act_bind m f)"
proof (cases m)
  case (Pair r t)
  show ?thesis
  proof (cases r)
    case (Inl e)
    with Pair assms(1) show ?thesis
      by (simp add: fails_without_def act_bind_def)
  next
    case (Inr x)
    with Pair assms(2) [of x] have "fails_without bad (f x)"
      by simp
    with Pair Inr assms(1) show ?thesis
      by (cases "f x") (auto simp: fails_without_def act_bind_def)
  qed
qed

lemma fails_without_ret_False: "fails_without bad (ret False)"
  by (simp add: fails_without_def ret_def)

lemma fails_without_try:
  assumes "fails_without bad m"
  shows "try_except m (\<lambda>e. ret False) = (Inr False, snd m) \<and> \<not> list_ex bad (snd m)"
  using assms
  by (cases m; cases "fst m") (auto simp: fails_without_def try_except_def ret_def)

subsection \<open>The clients\<close>

lemma get_docusign_api_client_ok:
  assumes "credentials_ok g w api_server authorization_server private_key token"
  shows "get_docusign_api_client g w =
           (Inr \<lparr>host = ''https://'' @ api_server @ ''/restapi'',
                  default_headers = [(''Authorization'', ''Bearer '' @ token)]\<rparr>,
            [OpenFile (DS_PRIVATE_KEY_PATH g),
             RequestJwtUserToken (jwt_user_token_request g authorization_server private_key)])"
  using assms
  by (simp add: credentials_ok_def get_docusign_api_client_def get_jwt_token_def act_defs
        ApiClient_def set_default_header_def)

lemma get_salesforce_client_ok:
  assumes "credentials_ok g w api_server authorization_server private_key token"
  shows "get_salesforce_client g w =
           (Inr (), [SalesforceLogin (SF_USERNAME g) (SF_PASSWORD g) (SF_SECURITY_TOKEN g)])"
  using assms by (simp add: credentials_ok_def get_salesforce_client_def act_defs)

lemma get_docusign_api_client_calls:
  "list_all is_credential_call (snd (get_docusign_api_client g w))"
  by (simp add: get_docusign_api_client_def get_jwt_token_def Let_def snd_act_bind fst_act_bind
        fst_lift snd_lift fst_call snd_call snd_ret split: sum.split)

lemma get_salesforce_client_calls:
  "list_all is_credential_call (snd (get_salesforce_client g w))"
  by (simp add: get_salesforce_client_def call_def)

lemma past_fields_credentials:
  "list_all is_credential_call t \<Longrightarrow> \<not> list_ex past_fields t"
  by (induction t) (auto simp: past_fields_def elim: is_credential_call.elims)

lemma past_query_credentials:
  "list_all is_credential_call t \<Longrightarrow> \<not> list_ex past_query t"
  by (induction t) (auto simp: past_query_def elim: is_credential_call.elims)

lemma custom_fields_url_no_download:
  "\<not> suffix ''/documents/combined'' (custom_fields_url h a e)"
  by (simp add: custom_fields_url_def suffix_to_prefix)

lemma doc_download_url_download:
  "suffix ''/documents/combined'' (doc_download_url h a e)"
  unfolding doc_download_url_def by (simp add: suffix_def)

subsection \<open>The contract number of a custom-fields document\<close>

lemma py_format_str: "py_format w (JStr s) = s"
  by (simp add: py_format_def)

lemma py_eq_str_lookup:
  "py_eq_str (case map_of d k of None \<Rightarrow> JNull | Some v \<Rightarrow> v) s \<longleftrightarrow> map_of d k = Some (JStr s)"
proof (cases "map_of d k")
  case None
  then show ?thesis by simp
next
  case (Some n)
  then show ?thesis by (cases n) simp_all
qed

lemma scan_fields_skip:
  assumes "\<forall>f\<in>set pre. \<exists>fd. f = JDict fd \<and> map_of fd ''name'' \<noteq> Some (JStr ''contractNumber'')"
  shows "scan_fields (pre @ rest) = scan_fields rest"
  using assms
proof (induction pre)
  case Nil
  then show ?case by simp
next
  case (Cons f pre)
  then obtain fd where "f = JDict fd" and "map_of fd ''name'' \<noteq> Some (JStr ''contractNumber'')"
    by auto
  with Cons show ?case
    by (simp add: sum_bind_def py_eq_str_lookup)
qed

lemma find_contract_number_first:
  assumes "map_of cf ''textCustomFields'' = Some (JList (pre @ JDict field # post))"
      and "\<forall>f\<in>set pre. \<exists>fd. f = JDict fd \<and> map_of fd ''name'' \<noteq> Some (JStr ''contractNumber'')"
      and "map_of field ''name'' = Some (JStr ''contractNumber'')"
  shows "find_contract_number (JDict cf) =
           Inr (case map_of field ''value'' of None \<Rightarrow> JNull | Some v \<Rightarrow> v)"
  using assms(1,3) scan_fields_skip [OF assms(2)]
  by (simp add: find_contract_number_def sum_bind_def)

lemma scan_fields_none:
  "\<not> list_ex is_contract_number_field fs \<Longrightarrow> scan_fields fs = Inr v \<Longrightarrow> v = JNull"
proof (induction fs)
  case Nil
  then show ?case by simp
next
  case (Cons f fs)
  show ?case
  proof (cases f)
    case (JDict fd)
    with Cons show ?thesis
      by (simp add: sum_bind_def py_eq_str_lookup)
  qed (use Cons.prems in \<open>simp_all add: sum_bind_def\<close>)
qed

lemma not_field_keys: "\<not> list_ex is_contract_number_field (map JStr ks)"
  by (induction ks) simp_all

lemma not_field_chars: "\<not> list_ex is_contract_number_field (map (\<lambda>c. JStr [c]) s)"
  by (induction s) simp_all

lemma find_contract_number_none:
  assumes "\<not> has_contract_number_field cfd" and "find_contract_number cfd = Inr v"
  shows "\<not> py_truthy v"
proof (cases cfd)
  case cfd: (JDict cf)
  show ?thesis
  proof (cases "map_of cf ''textCustomFields''")
    case None
    with cfd assms(2) show ?thesis
      by (auto simp: find_contract_number_def sum_bind_def)
  next
    case (Some fs)
    have "v = JNull"
    proof (cases fs)
      case (JList xs)
      with assms cfd Some show ?thesis
        by (auto simp: find_contract_number_def has_contract_number_field_def sum_bind_def
              split: if_splits dest: scan_fields_none)
    next
      case (JDict kvs)
      with assms cfd Some show ?thesis
        using scan_fields_none [OF not_field_keys]
        by (auto simp: find_contract_number_def sum_bind_def split: if_splits)
    next
      case (JStr s)
      with assms cfd Some show ?thesis
        using scan_fields_none [OF not_field_chars]
        by (auto simp: find_contract_number_def sum_bind_def split: if_splits)
    qed (use assms cfd Some in
          \<open>auto simp: find_contract_number_def sum_bind_def split: if_splits\<close>)
    then show ?thesis by simp
  qed
qed (use assms in \<open>simp_all add: find_contract_number_def sum_bind_def\<close>)

lemma total_size_not_one:
  assumes "py_getitem query_result ''totalSize'' = Inr n" and "\<not> total_size_is_one query_result"
  shows "py_ne_one n"
  using assms
  by (cases query_result; cases n) (auto simp: total_size_is_one_def split: option.splits)

subsection \<open>A job that is a JSON object is processed to the end\<close>

lemma total_size_one:
  assumes "total_size_is_one (JDict q)"
  obtains n where "map_of q ''totalSize'' = Some n" and "\<not> py_ne_one n"
  using assms by (auto simp: total_size_is_one_def split: option.splits)

lemma no_acknowledgment_Api: "filter is_acknowledgment (map Api t) = []"
  by (induction t) simp_all


lemma process_webhook_job_dict_returns:
  "\<exists>b t. process_webhook_job g w (JDict job) = (Inr b, t)"
  using try_except_returns [of "process_webhook_job_body g w (JDict job)"]
  by (auto simp: process_webhook_job_def act_bind_def lift_def ret_def)

section \<open>The claims\<close>

text \<open>
  C1, as amended.  A job of the event \<open>envelope-completed\<close> with an envelope id, for which
  both clients are acquired and the custom-fields fetch succeeds: if the first field named
  \<open>contractNumber\<close> of the field list has a non-empty value, every element before it being
  a field of another name, the CRM query returns a result whose \<open>totalSize\<close> equals \<open>1\<close>
  and whose first record has an \<open>Id\<close>, and the document fetch and the attachment create
  succeed, then \<open>process_webhook_job\<close> returns \<open>True\<close>, and the last of its calls submits
  the attachment payload whose \<open>ParentId\<close> is that \<open>Id\<close>, whose \<open>Name\<close> is
  \<open>Signed Contract - <contract number>.pdf\<close>, whose \<open>Body\<close> is the base64 text of the
  fetched bytes, which decodes to these bytes, and whose \<open>ContentType\<close> is
  \<open>application/pdf\<close>.  The contract number in the name and in the query is the value as an
  f-string renders it: a str value as it is.
\<close>

theorem process_webhook_job_attaches:
  assumes "map_of job ''event'' = Some (JStr ''envelope-completed'')"
      and "map_of job ''data'' = Some (JDict d)"
      and "map_of d ''envelopeId'' = Some envelope_id"
      and "credentials_ok g w api_server authorization_server private_key token"
      and "h = ''https://'' @ api_server @ ''/restapi''"
      and "headers = [(''Authorization'', ''Bearer '' @ token)]"
      and "requests_get w (custom_fields_url h (DS_ACCOUNT_ID g) (py_format w envelope_id)) headers
             = Inr fields_response"
      and "raise_for_status fields_response = Inr ()"
      and "json_result fields_response = Inr (JDict cf)"
      and "map_of cf ''textCustomFields'' = Some (JList (pre @ JDict field # post))"
      and "\<forall>f\<in>set pre. \<exists>fd. f = JDict fd \<and> map_of fd ''name'' \<noteq> Some (JStr ''contractNumber'')"
      and "map_of field ''name'' = Some (JStr ''contractNumber'')"
      and "map_of field ''value'' = Some v"
      and "py_truthy v"
      and "contract_number = py_format w v"
      and "sf_query w (soql_query contract_number) = Inr (JDict q)"
      and "total_size_is_one (JDict q)"
      and "map_of q ''records'' = Some (JList (JDict contract_record # others))"
      and "map_of contract_record ''Id'' = Some record_id"
      and "requests_get w (doc_download_url h (DS_ACCOUNT_ID g) (py_format w envelope_id)) headers
             = Inr document_response"
      and "raise_for_status document_response = Inr ()"
      and "Attachment_create w
             (attachment_payload record_id contract_number (b64encode (content document_response)))
             = Inr created"
  shows "process_webhook_job g w (JDict job) =
           (Inr True,
            [OpenFile (DS_PRIVATE_KEY_PATH g),
             RequestJwtUserToken (jwt_user_token_request g authorization_server private_key),
             SalesforceLogin (SF_USERNAME g) (SF_PASSWORD g) (SF_SECURITY_TOKEN g),
             RequestsGet (custom_fields_url h (DS_ACCOUNT_ID g) (py_format w envelope_id)) headers,
             SfQuery (soql_query contract_number),
             RequestsGet (doc_download_url h (DS_ACCOUNT_ID g) (py_format w envelope_id)) headers,
             AttachmentCreate
               (JDict [(''ParentId'', record_id),
                       (''Name'', JStr (''Signed Contract - '' @ contract_number @ ''.pdf'')),
                       (''Body'', JStr (b64encode (content document_response))),
                       (''ContentType'', JStr ''application/pdf'')])]) \<and>
         b64decode (b64encode (content document_response)) = Some (content document_response) \<and>
         (\<forall>c. v = JStr c \<longrightarrow> contract_number = c)"
proof -
  note clients = get_docusign_api_client_ok [OF assms(4)] get_salesforce_client_ok [OF assms(4)]
  have number: "find_contract_number (JDict cf) = Inr v"
    using find_contract_number_first [OF assms(10,11,12)] assms(13) by simp
  obtain n where size: "map_of q ''totalSize'' = Some n" "\<not> py_ne_one n"
    using assms(17) by (rule total_size_one)
  have "process_webhook_job g w (JDict job) =
           (Inr True,
            [OpenFile (DS_PRIVATE_KEY_PATH g),
             RequestJwtUserToken (jwt_user_token_request g authorization_server private_key),
             SalesforceLogin (SF_USERNAME g) (SF_PASSWORD g) (SF_SECURITY_TOKEN g),
             RequestsGet (custom_fields_url h (DS_ACCOUNT_ID g) (py_format w envelope_id)) headers,
             SfQuery (soql_query contract_number),
             RequestsGet (doc_download_url h (DS_ACCOUNT_ID g) (py_format w envelope_id)) headers,
             AttachmentCreate
               (JDict [(''ParentId'', record_id),
                       (''Name'', JStr (''Signed Contract - '' @ contract_number @ ''.pdf'')),
                       (''Body'', JStr (b64encode (content document_response))),
                       (''ContentType'', JStr ''application/pdf'')])])"
    using assms(1-3) assms(5-9) assms(14) assms(16) assms(18-22) size
    unfolding assms(15)
    by (simp add: process_webhook_job_def process_webhook_job_body_def clients number act_defs
          getitem_def Let_def attachment_payload_def)
  moreover have "\<forall>c. v = JStr c \<longrightarrow> contract_number = c"
    by (simp add: assms(15) py_format_str)
  ultimately show ?thesis
    by (simp add: b64decode_b64encode)
qed

theorem process_webhook_job_attaches_witness:
  "process_webhook_job g0 (env0 [JDict (field0 ''C-100'')] [JDict record0]) (JDict job0) =
     (Inr True,
      [OpenFile ''private.key'',
       RequestJwtUserToken
         \<lparr>client_id = ''ik-1'', user_id = ''user-1'',
          oauth_host_name = ''account-d.docusign.com'', private_key_bytes = ''KEY'',
          expires_in = 3600, scopes = [''signature'', ''impersonation'']\<rparr>,
       SalesforceLogin ''crm-user'' ''crm-pass'' ''crm-token'',
       RequestsGet
         ''https://demo.docusign.net/restapi/v2.1/accounts/acct-1/envelopes/E1/custom_fields''
         [(''Authorization'', ''Bearer TOKEN'')],
       SfQuery (''SELECT Id FROM Contract WHERE ContractNumber = '' @ [CHR 0x27] @ ''C-100''
                  @ [CHR 0x27]),
       RequestsGet
         ''https://demo.docusign.net/restapi/v2.1/accounts/acct-1/envelopes/E1/documents/combined''
         [(''Authorization'', ''Bearer TOKEN'')],
       AttachmentCreate
         (JDict [(''ParentId'', JStr ''0061x''),
                 (''Name'', JStr ''Signed Contract - C-100.pdf''),
                 (''Body'', JStr ''JVBERi4uLg==''),
                 (''ContentType'', JStr ''application/pdf'')])])"
  using process_webhook_job_attaches
    [where job = job0 and d = "[(''envelopeId'', JStr ''E1'')]" and envelope_id = "JStr ''E1''"
       and g = g0 and w = "env0 [JDict (field0 ''C-100'')] [JDict record0]"
       and api_server = "''demo.docusign.net''"
       and authorization_server = "''account-d.docusign.com''"
       and private_key = "''KEY''" and token = "''TOKEN''"
       and h = host0 and headers = headers0
       and fields_response = "fields_response0 [JDict (field0 ''C-100'')]"
       and cf = "fields0 [JDict (field0 ''C-100'')]"
       and pre = "[]" and field = "field0 ''C-100''" and post = "[]"
       and v = "JStr ''C-100''" and contract_number = "''C-100''"
       and q = "query_result0 [JDict record0]" and contract_record = record0 and others = "[]"
       and record_id = "JStr ''0061x''"
       and document_response = document_response0 and created = created0]
  by (simp add: scenario_defs model_defs sum_bind_def total_size_is_one_def b64_char_def
        b64_alphabet_def)

text \<open>
  C1 as stated asks only for some field named \<open>contractNumber\<close> with a non-empty value.
  The loop of lines 102 to 105 stops at the first field of that name: when that one is empty
  and a later one has the value \<open>C-100\<close>, the job returns \<open>False\<close> after the custom-fields
  fetch, although the CRM has exactly one record and the document fetch and the attachment
  create would succeed.  It does the same when an element before the field is no dict.
\<close>

theorem process_webhook_job_attaches_counterexample:
  "map_of job0 ''event'' = Some (JStr ''envelope-completed'') \<and>
   requests_get (env0 shadowed0 [JDict record0]) (custom_fields_url host0 ''acct-1'' ''E1'') headers0 =
     Inr \<lparr>status_code = 200,
          json_result = Inr (JDict [(''textCustomFields'',
            JList [JDict [(''name'', JStr ''contractNumber''), (''value'', JStr [])],
                   JDict [(''name'', JStr ''contractNumber''), (''value'', JStr ''C-100'')]])]),
          content = []\<rparr> \<and>
   sf_query (env0 shadowed0 [JDict record0]) (soql_query ''C-100'') =
     Inr (JDict [(''totalSize'', JInt 1), (''done'', JBool True),
                 (''records'', JList [JDict [(''Id'', JStr ''0061x'')]])]) \<and>
   requests_get (env0 shadowed0 [JDict record0]) (doc_download_url host0 ''acct-1'' ''E1'') headers0 =
     Inr \<lparr>status_code = 200, json_result = Inl JSONDecodeError, content = pdf0\<rparr> \<and>
   Attachment_create (env0 shadowed0 [JDict record0])
     (attachment_payload (JStr ''0061x'') ''C-100'' (b64encode pdf0)) = Inr created0 \<and>
   process_webhook_job g0 (env0 shadowed0 [JDict record0]) (JDict job0) =
     (Inr False,
      [OpenFile ''private.key'',
       RequestJwtUserToken (jwt_user_token_request g0 ''account-d.docusign.com'' ''KEY''),
       SalesforceLogin ''crm-user'' ''crm-pass'' ''crm-token'',
       RequestsGet (custom_fields_url host0 ''acct-1'' ''E1'') headers0]) \<and>
   json_result (fields_response0 malformed0) =
     Inr (JDict [(''textCustomFields'',
            JList [JNull,
                   JDict [(''name'', JStr ''contractNumber''), (''value'', JStr ''C-100'')]])]) \<and>
   process_webhook_job g0 (env0 malformed0 [JDict record0]) (JDict job0) =
     (Inr False,
      [OpenFile ''private.key'',
       RequestJwtUserToken (jwt_user_token_request g0 ''account-d.docusign.com'' ''KEY''),
       SalesforceLogin ''crm-user'' ''crm-pass'' ''crm-token'',
       RequestsGet (custom_fields_url host0 ''acct-1'' ''E1'') headers0])"
  by (simp add: process_webhook_job_def process_webhook_job_body_def get_docusign_api_client_def
        get_jwt_token_def get_salesforce_client_def find_contract_number_def ApiClient_def
        set_default_header_def act_defs model_defs scenario_defs shadowed0_def malformed0_def Let_def)

text \<open>
  C2.  The claim is that \<open>process_webhook_job\<close> returns a boolean for every payload and
  that no exception leaves it, also for a payload that is not a dict.  The test of the event
  in line 82 calls \<open>webhook_data.get\<close> before the \<open>try\<close> of line 86 begins: on a payload
  that is a JSON list (or any other JSON value that is no object) the call raises
  \<open>AttributeError\<close>, which no handler catches, and the function makes no call and returns
  nothing.
\<close>

theorem process_webhook_job_raises_on_list:
  "process_webhook_job g w (JList xs) = (Inl AttributeError, []) \<and>
   process_webhook_job g w (JStr s) = (Inl AttributeError, []) \<and>
   process_webhook_job g w (JInt i) = (Inl AttributeError, []) \<and>
   process_webhook_job g w (JFloat x) = (Inl AttributeError, []) \<and>
   process_webhook_job g w (JBool b) = (Inl AttributeError, []) \<and>
   process_webhook_job g w JNull = (Inl AttributeError, [])"
  by (simp add: process_webhook_job_def act_defs)

text \<open>
  C3, as amended.  For every delivered message whose body \<open>json.loads\<close> decodes to a JSON
  object, the callback performs exactly one acknowledgment action, after the calls of the
  orchestrator: \<open>basic_ack\<close> if the orchestrator returned \<open>True\<close>, \<open>basic_nack\<close> with
  \<open>requeue=False\<close> if it returned \<open>False\<close>.  When \<open>json.loads\<close> raises on the body, the
  callback raises that exception and makes no call, so it performs no acknowledgment action.
\<close>

theorem callback_one_acknowledgment:
  "(json_loads w body = Inr (JDict job) \<longrightarrow>
      (\<exists>b t. process_webhook_job g w (JDict job) = (Inr b, t) \<and>
         snd (callback g w tag body) =
           map Api t @ [Broker (if b then BasicAck tag else BasicNack tag False)] \<and>
         filter is_acknowledgment (snd (callback g w tag body)) =
           [Broker (if b then BasicAck tag else BasicNack tag False)])) \<and>
   (json_loads w body = Inl e \<longrightarrow> callback g w tag body = (Inl e, []))"
proof (intro conjI impI)
  assume loads: "json_loads w body = Inr (JDict job)"
  obtain b t where job: "process_webhook_job g w (JDict job) = (Inr b, t)"
    using process_webhook_job_dict_returns by blast
  have calls: "snd (callback g w tag body) =
                 map Api t @ [Broker (if b then BasicAck tag else BasicNack tag False)]"
    using loads job by (simp add: callback_def act_defs emit_def)
  have "filter is_acknowledgment (snd (callback g w tag body)) =
          [Broker (if b then BasicAck tag else BasicNack tag False)]"
    unfolding calls by (simp add: no_acknowledgment_Api)
  with job calls
  show "\<exists>b t. process_webhook_job g w (JDict job) = (Inr b, t) \<and>
         snd (callback g w tag body) =
           map Api t @ [Broker (if b then BasicAck tag else BasicNack tag False)] \<and>
         filter is_acknowledgment (snd (callback g w tag body)) =
           [Broker (if b then BasicAck tag else BasicNack tag False)]"
    by blast
next
  assume "json_loads w body = Inl e"
  then show "callback g w tag body = (Inl e, [])"
    by (simp add: callback_def act_bind_def lift_def)
qed

theorem callback_one_acknowledgment_witness:
  "filter is_acknowledgment (snd (callback g0 world0 7 body0)) = [Broker (BasicAck 7)] \<and>
   callback g0 world0 8 ''{'' = (Inl JSONDecodeError, [])"
proof -
  have loads: "json_loads world0 body0 = Inr (JDict job0)"
    by (simp add: world0_def env0_def)
  obtain b t where job: "process_webhook_job g0 world0 (JDict job0) = (Inr b, t)"
    and ack: "filter is_acknowledgment (snd (callback g0 world0 7 body0)) =
                [Broker (if b then BasicAck 7 else BasicNack 7 False)]"
    using callback_one_acknowledgment [where w = world0 and body = body0 and job = job0
        and g = g0 and tag = 7] loads
    by blast
  have "fst (process_webhook_job g0 world0 (JDict job0)) = Inr True"
    by (simp add: process_webhook_job_def process_webhook_job_body_def get_docusign_api_client_def
          get_jwt_token_def get_salesforce_client_def find_contract_number_def ApiClient_def
          set_default_header_def act_defs model_defs scenario_defs Let_def)
  with job have "b" by simp
  have raises: "json_loads world0 ''{'' = Inl JSONDecodeError"
    by (simp add: world0_def env0_def body0_def)
  have "callback g0 world0 8 ''{'' = (Inl JSONDecodeError, [])"
    using callback_one_acknowledgment [where w = world0 and body = "''{''"
        and e = JSONDecodeError and g = g0 and tag = 8] raises
    by blast
  with ack \<open>b\<close> show ?thesis by simp
qed

text \<open>
  C3 as stated speaks of every delivered message.  On a body that is not JSON \<open>json.loads\<close>
  raises in the callback, which has no handler: the callback raises, and it performs no
  acknowledgment action.
\<close>

theorem callback_no_acknowledgment_counterexample:
  "callback g0 world0 7 ''not json'' = (Inl JSONDecodeError, []) \<and>
   filter is_acknowledgment (snd (callback g0 world0 7 ''not json'')) = []"
  by (simp add: callback_def act_defs world0_def env0_def body0_def)

text \<open>
  C4.  For every job payload whose \<open>event\<close> is not \<open>envelope-completed\<close>, or that has no
  \<open>event\<close>, \<open>process_webhook_job\<close> returns \<open>True\<close> and makes no external call.
\<close>

theorem process_webhook_job_ignores_other_events:
  assumes "map_of job ''event'' \<noteq> Some (JStr ''envelope-completed'')"
  shows "process_webhook_job g w (JDict job) = (Inr True, [])"
  using assms by (simp add: process_webhook_job_def act_defs py_eq_str_lookup)

theorem process_webhook_job_ignores_other_events_witness:
  "process_webhook_job g0 world0 (JDict [(''event'', JStr ''envelope-sent''),
      (''data'', JDict [(''envelopeId'', JStr ''E1'')])]) = (Inr True, []) \<and>
   process_webhook_job g0 world0 (JDict [(''data'', JDict [(''envelopeId'', JStr ''E1'')])])
     = (Inr True, [])"
proof -
  have a: "map_of [(''event'', JStr ''envelope-sent''), (''data'', JDict [(''envelopeId'', JStr ''E1'')])]
             ''event'' \<noteq> Some (JStr ''envelope-completed'')"
    by simp
  have b: "map_of [(''data'', JDict [(''envelopeId'', JStr ''E1'')])] ''event''
             \<noteq> Some (JStr ''envelope-completed'')"
    by simp
  show ?thesis
    using process_webhook_job_ignores_other_events [OF a]
      process_webhook_job_ignores_other_events [OF b]
    by simp
qed

text \<open>
  C5.  For every job of the event \<open>envelope-completed\<close>: if the custom-fields document
  that the e-signature API answers has no field named exactly \<open>contractNumber\<close> (also when
  its field list is empty or absent), \<open>process_webhook_job\<close> returns \<open>False\<close>, and none of
  its calls is the CRM query, the document download or the attachment create.
\<close>

theorem process_webhook_job_no_contract_number:
  assumes "map_of job ''event'' = Some (JStr ''envelope-completed'')"
      and "\<And>h a e headers r cfd.
             requests_get w (custom_fields_url h a e) headers = Inr r \<Longrightarrow>
             json_result r = Inr cfd \<Longrightarrow> \<not> has_contract_number_field cfd"
  shows "fst (process_webhook_job g w (JDict job)) = Inr False \<and>
         \<not> list_ex is_crm_query (snd (process_webhook_job g w (JDict job))) \<and>
         \<not> list_ex is_document_download (snd (process_webhook_job g w (JDict job))) \<and>
         \<not> list_ex is_attachment_create (snd (process_webhook_job g w (JDict job)))"
proof -
  have "fails_without past_fields (process_webhook_job_body g w (JDict job))"
    unfolding process_webhook_job_body_def Let_def
  proof (intro fails_without_bind, goal_cases)
    case (9 envelope_id client sf authorization response u cfd contract_number)
    then have "\<not> py_truthy contract_number"
      using assms(2) find_contract_number_none by (simp add: fst_call fst_lift) blast
    then show ?case
      by (simp add: fails_without_ret_False)
  qed (simp_all add: snd_lift snd_call past_fields_credentials get_docusign_api_client_calls
         get_salesforce_client_calls past_fields_def custom_fields_url_no_download)
  from fails_without_try [OF this] show ?thesis
    using assms(1)
    by (auto simp: process_webhook_job_def act_bind_def lift_def past_fields_def list_ex_iff)
qed

theorem process_webhook_job_no_contract_number_witness:
  "fst (process_webhook_job g0
          (env0 [JDict [(''name'', JStr ''poNumber''), (''value'', JStr ''PO-7'')]] [JDict record0])
          (JDict job0)) = Inr False \<and>
   \<not> list_ex is_crm_query (snd (process_webhook_job g0
          (env0 [JDict [(''name'', JStr ''poNumber''), (''value'', JStr ''PO-7'')]] [JDict record0])
          (JDict job0))) \<and>
   \<not> list_ex is_document_download (snd (process_webhook_job g0
          (env0 [JDict [(''name'', JStr ''poNumber''), (''value'', JStr ''PO-7'')]] [JDict record0])
          (JDict job0))) \<and>
   \<not> list_ex is_attachment_create (snd (process_webhook_job g0
          (env0 [JDict [(''name'', JStr ''poNumber''), (''value'', JStr ''PO-7'')]] [JDict record0])
          (JDict job0)))"
proof -
  let ?w = "env0 [JDict [(''name'', JStr ''poNumber''), (''value'', JStr ''PO-7'')]] [JDict record0]"
  have a: "map_of job0 ''event'' = Some (JStr ''envelope-completed'')"
    by (simp add: job0_def)
  have b: "\<not> has_contract_number_field cfd"
    if "requests_get ?w (custom_fields_url h a e) headers = Inr r" "json_result r = Inr cfd"
    for h a e headers r cfd
    using that
    by (auto simp: env0_def requests_get0_def fields_response0_def document_response0_def
          fields0_def has_contract_number_field_def split: if_splits)
  show ?thesis
    by (rule process_webhook_job_no_contract_number [OF a b])
qed

text \<open>
  C6.  For every job of the event \<open>envelope-completed\<close>: if the \<open>totalSize\<close> of the result
  that the CRM query answers is not equal to \<open>1\<close>, \<open>process_webhook_job\<close> returns \<open>False\<close>,
  and none of its calls is the document download or the attachment create.
\<close>

theorem process_webhook_job_not_one_record:
  assumes "map_of job ''event'' = Some (JStr ''envelope-completed'')"
      and "\<And>query query_result.
             sf_query w query = Inr query_result \<Longrightarrow> \<not> total_size_is_one query_result"
  shows "fst (process_webhook_job g w (JDict job)) = Inr False \<and>
         \<not> list_ex is_document_download (snd (process_webhook_job g w (JDict job))) \<and>
         \<not> list_ex is_attachment_create (snd (process_webhook_job g w (JDict job)))"
proof -
  have size: "py_ne_one n"
    if "sf_query w query = Inr query_result" "py_getitem query_result ''totalSize'' = Inr n"
    for query query_result n
    using that assms(2) total_size_not_one by blast
  have "fails_without past_query (process_webhook_job_body g w (JDict job))"
    unfolding process_webhook_job_body_def Let_def
  proof (intro fails_without_bind, goal_cases)
    case (9 envelope_id client sf authorization response u cfd contract_number)
    show ?case
    proof (cases "py_truthy contract_number")
      case False
      then show ?thesis
        by (simp add: fails_without_ret_False)
    next
      case True
      then show ?thesis
        by (auto intro!: fails_without_bind
              simp: snd_lift snd_call fst_lift fst_call past_query_def fails_without_ret_False size)
    qed
  qed (simp_all add: snd_lift snd_call past_query_credentials get_docusign_api_client_calls
         get_salesforce_client_calls past_query_def custom_fields_url_no_download)
  from fails_without_try [OF this] show ?thesis
    using assms(1)
    by (auto simp: process_webhook_job_def act_bind_def lift_def past_query_def list_ex_iff)
qed

theorem process_webhook_job_not_one_record_witness:
  "process_webhook_job g0 (env0 [JDict (field0 ''C-100'')] []) (JDict job0) =
     (Inr False,
      [OpenFile ''private.key'',
       RequestJwtUserToken (jwt_user_token_request g0 ''account-d.docusign.com'' ''KEY''),
       SalesforceLogin ''crm-user'' ''crm-pass'' ''crm-token'',
       RequestsGet (custom_fields_url host0 ''acct-1'' ''E1'') headers0,
       SfQuery (soql_query ''C-100'')]) \<and>
   fst (process_webhook_job g0
          (env0 [JDict (field0 ''C-100'')] [JDict record0, JDict [(''Id'', JStr ''0062y'')]])
          (JDict job0)) = Inr False \<and>
   \<not> list_ex is_document_download (snd (process_webhook_job g0
          (env0 [JDict (field0 ''C-100'')] [JDict record0, JDict [(''Id'', JStr ''0062y'')]])
          (JDict job0))) \<and>
   \<not> list_ex is_attachment_create (snd (process_webhook_job g0
          (env0 [JDict (field0 ''C-100'')] [JDict record0, JDict [(''Id'', JStr ''0062y'')]])
          (JDict job0)))"
proof -
  let ?two = "env0 [JDict (field0 ''C-100'')] [JDict record0, JDict [(''Id'', JStr ''0062y'')]]"
  have a: "map_of job0 ''event'' = Some (JStr ''envelope-completed'')"
    by (simp add: job0_def)
  have b: "\<not> total_size_is_one query_result" if "sf_query ?two query = Inr query_result"
    for query query_result
    using that by (auto simp: env0_def query_result0_def total_size_is_one_def)
  have none: "process_webhook_job g0 (env0 [JDict (field0 ''C-100'')] []) (JDict job0) =
     (Inr False,
      [OpenFile ''private.key'',
       RequestJwtUserToken (jwt_user_token_request g0 ''account-d.docusign.com'' ''KEY''),
       SalesforceLogin ''crm-user'' ''crm-pass'' ''crm-token'',
       RequestsGet (custom_fields_url host0 ''acct-1'' ''E1'') headers0,
       SfQuery (soql_query ''C-100'')])"
    by (simp add: process_webhook_job_def process_webhook_job_body_def get_docusign_api_client_def
          get_jwt_token_def get_salesforce_client_def find_contract_number_def ApiClient_def
          set_default_header_def act_defs model_defs scenario_defs Let_def)
  show ?thesis
    using process_webhook_job_not_one_record [OF a b] none by simp
qed

text \<open>
  C7.  For every payload whose \<open>event\<close> is \<open>envelope-completed\<close> and that has no \<open>data\<close>
  object with an \<open>envelopeId\<close> key, \<open>process_webhook_job\<close> returns \<open>False\<close>; it does so
  before any external call.
\<close>

theorem process_webhook_job_missing_envelope_id:
  assumes "map_of job ''event'' = Some (JStr ''envelope-completed'')"
      and "\<not> (\<exists>d v. map_of job ''data'' = Some (JDict d) \<and> map_of d ''envelopeId'' = Some v)"
  shows "process_webhook_job g w (JDict job) = (Inr False, [])"
proof -
  have "\<exists>e. sum_bind (py_getitem (JDict job) ''data'') (\<lambda>data. py_getitem data ''envelopeId'')
              = Inl e"
  proof (cases "map_of job ''data''")
    case None
    then show ?thesis by (simp add: sum_bind_def)
  next
    case (Some data)
    with assms(2) show ?thesis
      by (cases data) (auto simp: sum_bind_def split: option.splits)
  qed
  then obtain e where
    "sum_bind (py_getitem (JDict job) ''data'') (\<lambda>data. py_getitem data ''envelopeId'') = Inl e" ..
  with assms(1) show ?thesis
    by (simp add: process_webhook_job_def process_webhook_job_body_def act_bind_def lift_def
          ret_def try_except_def)
qed

theorem process_webhook_job_missing_envelope_id_witness:
  "process_webhook_job g0 world0 (JDict [(''event'', JStr ''envelope-completed''),
      (''data'', JDict [])]) = (Inr False, [])"
proof -
  have a: "map_of [(''event'', JStr ''envelope-completed''), (''data'', JDict [])] ''event''
             = Some (JStr ''envelope-completed'')"
    by simp
  have b: "\<not> (\<exists>d v. map_of [(''event'', JStr ''envelope-completed''), (''data'', JDict [])] ''data''
                      = Some (JDict d) \<and> map_of d ''envelopeId'' = Some v)"
    by simp
  show ?thesis
    by (rule process_webhook_job_missing_envelope_id [OF a b])
qed

text \<open>
  C8.  If the environment has no \<open>RABBITMQ_URL\<close>, loading the module raises (\<open>ValueError\<close>
  from line 37, unless an option of \<open>config.ini\<close> is missing, whose \<open>KeyError\<close> comes
  first), the process ends with that exception, and it makes no call: no connection to the
  broker is attempted and nothing is consumed.
\<close>

theorem worker_requires_rabbitmq_url:
  assumes "environ ''RABBITMQ_URL'' = None"
  shows "\<exists>e. module_init cfg environ = Inl e \<and> (e = ValueError \<or> e = KeyError) \<and>
           worker cfg environ w deliveries = (Inl e, [])"
proof -
  have "module_init cfg environ = Inl ValueError \<or> module_init cfg environ = Inl KeyError"
    using assms by (auto simp: module_init_def sum_bind_def getitem_def split: option.splits)
  then show ?thesis
    by (auto simp: worker_def act_bind_def lift_def)
qed

theorem worker_requires_rabbitmq_url_witness:
  "worker cfg0 (\<lambda>name. None) world0 [(7, body0)] = (Inl ValueError, [])"
proof -
  have a: "(\<lambda>name. None :: string option) ''RABBITMQ_URL'' = None"
    by simp
  obtain e where init: "module_init cfg0 (\<lambda>name. None) = Inl e"
    and run: "worker cfg0 (\<lambda>name. None) world0 [(7, body0)] = (Inl e, [])"
    using worker_requires_rabbitmq_url [OF a, of cfg0 world0 "[(7, body0)]"] by blast
  have "module_init cfg0 (\<lambda>name. None) = Inl ValueError"
    by (simp add: module_init_def sum_bind_def getitem_def cfg0_def)
  with init run show ?thesis by simp
qed

text \<open>
  C9.  For every contract number \<open>c\<close>, a non-empty str that is the value of the first field
  named \<open>contractNumber\<close>, the job makes exactly one CRM query, and its query string is
  \<open>SELECT Id FROM Contract WHERE ContractNumber = '\<close> followed by \<open>c\<close> as it is and a
  closing quote.  Nothing in \<open>c\<close> is escaped: the witness has a \<open>c\<close> with single quotes,
  which end the literal early and add a condition to the query.
\<close>

theorem process_webhook_job_query_string:
  assumes "map_of job ''event'' = Some (JStr ''envelope-completed'')"
      and "map_of job ''data'' = Some (JDict d)"
      and "map_of d ''envelopeId'' = Some envelope_id"
      and "credentials_ok g w api_server authorization_server private_key token"
      and "h = ''https://'' @ api_server @ ''/restapi''"
      and "headers = [(''Authorization'', ''Bearer '' @ token)]"
      and "requests_get w (custom_fields_url h (DS_ACCOUNT_ID g) (py_format w envelope_id)) headers
             = Inr fields_response"
      and "raise_for_status fields_response = Inr ()"
      and "json_result fields_response = Inr (JDict cf)"
      and "map_of cf ''textCustomFields'' = Some (JList (pre @ JDict field # post))"
      and "\<forall>f\<in>set pre. \<exists>fd. f = JDict fd \<and> map_of fd ''name'' \<noteq> Some (JStr ''contractNumber'')"
      and "map_of field ''name'' = Some (JStr ''contractNumber'')"
      and "map_of field ''value'' = Some (JStr c)"
      and "c \<noteq> []"
  shows "filter is_crm_query (snd (process_webhook_job g w (JDict job))) =
           [SfQuery (''SELECT Id FROM Contract WHERE ContractNumber = '' @ [CHR 0x27] @ c
                       @ [CHR 0x27])]"
proof -
  note clients = get_docusign_api_client_ok [OF assms(4)] get_salesforce_client_ok [OF assms(4)]
  have number: "find_contract_number (JDict cf) = Inr (JStr c)"
    using find_contract_number_first [OF assms(10,11,12)] assms(13) by simp
  show ?thesis
    using assms(1-3) assms(5-9) assms(14)
    by (simp add: process_webhook_job_def snd_try_except process_webhook_job_body_def
          snd_act_bind fst_act_bind fst_lift fst_call snd_lift snd_call fst_ret snd_ret
          clients number sum_bind_def getitem_def py_format_str Let_def
          soql_query_def split: sum.split)
qed

theorem process_webhook_job_query_string_witness:
  "filter is_crm_query
     (snd (process_webhook_job g0 (env0 [JDict (field0 quoted0)] []) (JDict job0))) =
     [SfQuery (''SELECT Id FROM Contract WHERE ContractNumber = '' @ [CHR 0x27] @ ''C-100''
                 @ [CHR 0x27] @ '' OR Name != '' @ [CHR 0x27, CHR 0x27])]"
  using process_webhook_job_query_string
    [where job = job0 and d = "[(''envelopeId'', JStr ''E1'')]" and envelope_id = "JStr ''E1''"
       and g = g0 and w = "env0 [JDict (field0 quoted0)] []"
       and api_server = "''demo.docusign.net''"
       and authorization_server = "''account-d.docusign.com''"
       and private_key = "''KEY''" and token = "''TOKEN''"
       and h = host0 and headers = headers0
       and fields_response = "fields_response0 [JDict (field0 quoted0)]"
       and cf = "fields0 [JDict (field0 quoted0)]"
       and pre = "[]" and field = "field0 quoted0" and post = "[]"
       and c = quoted0]
  by (simp add: scenario_defs model_defs sum_bind_def)



end
